theory Spec2Isabelle
  imports Complex_Main "HOL-Library.Sublist"
begin

section \<open>Configuration / restart controller (code-index/config-manager.ts)\<close>

text \<open>
  JavaScript values are modelled as follows. A value that may be \<open>undefined\<close> is an
  \<open>option\<close>; \<open>a ?? d\<close> is \<open>nullish a d\<close>; \<open>o?.f\<close> is \<open>Option.bind\<close> (or \<open>map_option\<close> for a
  field that is always present). The embedder provider is a string, compared with
  \<open>===\<close> against the literals the source names.

  A value of the TypeScript type \<open>number\<close> is NaN, one of the two infinities or a finite
  value, here a real (the two zeros, which \<open>===\<close> does not tell apart, are one value).
  \<open>a === b\<close> on two possibly undefined numbers is \<open>strictEquals a b\<close>: NaN is not equal to
  anything, itself included; \<open>a !== b\<close> is its negation.
\<close>

datatype number = NaN | Infinity | NegativeInfinity | Finite real

definition strictEquals :: "number option \<Rightarrow> number option \<Rightarrow> bool" where
  "strictEquals a b =
     (case a of
        None \<Rightarrow> b = None
      | Some x \<Rightarrow> (case b of None \<Rightarrow> False | Some y \<Rightarrow> x \<noteq> NaN \<and> y \<noteq> NaN \<and> x = y))"

definition nullish :: "'a option \<Rightarrow> 'a \<Rightarrow> 'a" where
  "nullish v d = (case v of None \<Rightarrow> d | Some x \<Rightarrow> x)"

text \<open>Truthiness of a possibly undefined string: defined and not empty.\<close>

definition truthy :: "string option \<Rightarrow> bool" where
  "truthy v = (case v of None \<Rightarrow> False | Some s \<Rightarrow> s \<noteq> [])"

record ApiHandlerOptions =
  apiKey :: "string option"
  openAiNativeApiKey :: "string option"
  ollamaBaseUrl :: "string option"

record OpenAiCompatibleOptions =
  oac_baseUrl :: string
  oac_apiKey :: string
  oac_modelDimension :: "number option"

text \<open>The private fields of \<open>CodeIndexConfigManager\<close> that the restart decision reads.\<close>

record CodeIndexConfigManager =
  isEnabled :: bool
  embedderProvider :: string
  modelId :: "string option"
  openAiOptions :: "ApiHandlerOptions option"
  ollamaOptions :: "ApiHandlerOptions option"
  openAiCompatibleOptions :: "OpenAiCompatibleOptions option"
  qdrantUrl :: "string option"
  qdrantApiKey :: "string option"

record ConfigSnapshot =
  cs_enabled :: "bool option"
  cs_configured :: "bool option"
  cs_embedderProvider :: "string option"
  cs_modelId :: "string option"
  cs_openAiKey :: "string option"
  cs_ollamaBaseUrl :: "string option"
  cs_openAiCompatibleBaseUrl :: "string option"
  cs_openAiCompatibleApiKey :: "string option"
  cs_openAiCompatibleModelDimension :: "number option"
  cs_qdrantUrl :: "string option"
  cs_qdrantApiKey :: "string option"

definition isConfigured :: "CodeIndexConfigManager \<Rightarrow> bool" where
  "isConfigured this =
     (if embedderProvider this = ''openai'' then
        (let openAiKey = Option.bind (openAiOptions this) apiKey;
             qdrant = qdrantUrl this
         in truthy openAiKey \<and> truthy qdrant)
      else if embedderProvider this = ''ollama'' then
        (let baseUrl = Option.bind (ollamaOptions this) ollamaBaseUrl;
             qdrant = qdrantUrl this
         in truthy baseUrl \<and> truthy qdrant)
      else if embedderProvider this = ''openai-compatible'' then
        (let baseUrl = map_option oac_baseUrl (openAiCompatibleOptions this);
             key = map_option oac_apiKey (openAiCompatibleOptions this);
             qdrant = qdrantUrl this
         in truthy baseUrl \<and> truthy key \<and> truthy qdrant)
      else False)"

text \<open>
  The snapshot that \<open>loadConfiguration\<close> takes of the controller's state before it
  reloads (\<open>previousConfigSnapshot\<close>).
\<close>

definition previousConfigSnapshot :: "CodeIndexConfigManager \<Rightarrow> ConfigSnapshot" where
  "previousConfigSnapshot this =
     \<lparr> cs_enabled = Some (isEnabled this),
       cs_configured = Some (isConfigured this),
       cs_embedderProvider = Some (embedderProvider this),
       cs_modelId = modelId this,
       cs_openAiKey = Some (nullish (Option.bind (openAiOptions this) apiKey) ''''),
       cs_ollamaBaseUrl = Some (nullish (Option.bind (ollamaOptions this) ollamaBaseUrl) ''''),
       cs_openAiCompatibleBaseUrl =
         Some (nullish (map_option oac_baseUrl (openAiCompatibleOptions this)) ''''),
       cs_openAiCompatibleApiKey =
         Some (nullish (map_option oac_apiKey (openAiCompatibleOptions this)) ''''),
       cs_openAiCompatibleModelDimension =
         Option.bind (openAiCompatibleOptions this) oac_modelDimension,
       cs_qdrantUrl = Some (nullish (qdrantUrl this) ''''),
       cs_qdrantApiKey = Some (nullish (qdrantApiKey this) '''') \<rparr>"

text \<open>
  \<open>getDefaultModelId\<close> and \<open>getModelDimension\<close> belong to another module of the
  repository, shared/embeddingModels, which is not modelled; they are parameters.
\<close>

definition hasVectorDimensionChanged ::
  "(string \<Rightarrow> string) \<Rightarrow> (string \<Rightarrow> string \<Rightarrow> number option) \<Rightarrow>
   CodeIndexConfigManager \<Rightarrow> string \<Rightarrow> string option \<Rightarrow> bool" where
  "hasVectorDimensionChanged getDefaultModelId getModelDimension this prevProvider prevModelId =
     (let currentProvider = embedderProvider this;
          currentModelId = nullish (modelId this) (getDefaultModelId currentProvider);
          resolvedPrevModelId = nullish prevModelId (getDefaultModelId prevProvider)
      in if prevProvider = currentProvider \<and> resolvedPrevModelId = currentModelId then False
         else
           (let prevDimension = getModelDimension prevProvider resolvedPrevModelId;
                currentDimension = getModelDimension currentProvider currentModelId
            in if prevDimension = None \<or> currentDimension = None then True
               else \<not> strictEquals prevDimension currentDimension))"

definition doesConfigChangeRequireRestart ::
  "(string \<Rightarrow> string) \<Rightarrow> (string \<Rightarrow> string \<Rightarrow> number option) \<Rightarrow>
   CodeIndexConfigManager \<Rightarrow> ConfigSnapshot option \<Rightarrow> bool" where
  "doesConfigChangeRequireRestart getDefaultModelId getModelDimension this prev =
     (let nowConfigured = isConfigured this;
          prevEnabled = nullish (Option.bind prev cs_enabled) False;
          prevConfigured = nullish (Option.bind prev cs_configured) False;
          prevProvider = nullish (Option.bind prev cs_embedderProvider) ''openai'';
          prevModelId = Option.bind prev cs_modelId;
          prevOpenAiKey = nullish (Option.bind prev cs_openAiKey) '''';
          prevOllamaBaseUrl = nullish (Option.bind prev cs_ollamaBaseUrl) '''';
          prevOpenAiCompatibleBaseUrl = nullish (Option.bind prev cs_openAiCompatibleBaseUrl) '''';
          prevOpenAiCompatibleApiKey = nullish (Option.bind prev cs_openAiCompatibleApiKey) '''';
          prevOpenAiCompatibleModelDimension = Option.bind prev cs_openAiCompatibleModelDimension;
          prevQdrantUrl = nullish (Option.bind prev cs_qdrantUrl) '''';
          prevQdrantApiKey = nullish (Option.bind prev cs_qdrantApiKey) ''''
      in
        if (\<not> prevEnabled \<or> \<not> prevConfigured) \<and> isEnabled this \<and> nowConfigured then True
        else if \<not> prevEnabled \<and> \<not> isEnabled this then False
        else if \<not> prevConfigured \<and> \<not> nowConfigured then False
        else if isEnabled this \<or> prevEnabled then
          (if prevProvider \<noteq> embedderProvider this then True
           else if hasVectorDimensionChanged getDefaultModelId getModelDimension this
                     prevProvider prevModelId then True
           else if embedderProvider this = ''openai'' \<and>
                   prevOpenAiKey \<noteq> nullish (Option.bind (openAiOptions this) apiKey) '''' then True
           else if embedderProvider this = ''ollama'' \<and>
                   prevOllamaBaseUrl \<noteq>
                     nullish (Option.bind (ollamaOptions this) ollamaBaseUrl) '''' then True
           else if embedderProvider this = ''openai-compatible'' \<and>
                   (prevOpenAiCompatibleBaseUrl \<noteq>
                      nullish (map_option oac_baseUrl (openAiCompatibleOptions this)) '''' \<or>
                    prevOpenAiCompatibleApiKey \<noteq>
                      nullish (map_option oac_apiKey (openAiCompatibleOptions this)) '''' \<or>
                    \<not> strictEquals prevOpenAiCompatibleModelDimension
                        (Option.bind (openAiCompatibleOptions this) oac_modelDimension))
                then True
           else if prevQdrantUrl \<noteq> nullish (qdrantUrl this) '''' \<or>
                   prevQdrantApiKey \<noteq> nullish (qdrantApiKey this) '''' then True
           else False)
        else False)"


section \<open>Strings\<close>

text \<open>
  A JavaScript string is a \<open>string\<close> (a list of 8-bit characters); case mapping, white
  space and the character classes of the regular expression are those of the ASCII
  range, where the source's file extensions, capture names and tags live.
\<close>

definition newline :: char where
  "newline = CHR 0x0A"

definition isUpperAZ :: "char \<Rightarrow> bool" where
  "isUpperAZ c = (c \<in> set ''ABCDEFGHIJKLMNOPQRSTUVWXYZ'')"

text \<open>The class \<open>\w\<close> that decides the word boundary \<open>\b\<close>.\<close>

definition isWordChar :: "char \<Rightarrow> bool" where
  "isWordChar c =
     (c \<in> set ''ABCDEFGHIJKLMNOPQRSTUVWXYZabcdefghijklmnopqrstuvwxyz0123456789_'')"

definition isWhiteSpace :: "char \<Rightarrow> bool" where
  "isWhiteSpace c = (c \<in> set [CHR 0x09, CHR 0x0A, CHR 0x0B, CHR 0x0C, CHR 0x0D, CHR '' ''])"

definition toLowerChar :: "char \<Rightarrow> char" where
  "toLowerChar c =
     (case map_of (zip ''ABCDEFGHIJKLMNOPQRSTUVWXYZ'' ''abcdefghijklmnopqrstuvwxyz'') c of
        None \<Rightarrow> c | Some l \<Rightarrow> l)"

definition toLowerCase :: "string \<Rightarrow> string" where
  "toLowerCase s = map toLowerChar s"

definition trim :: "string \<Rightarrow> string" where
  "trim s = rev (dropWhile isWhiteSpace (rev (dropWhile isWhiteSpace s)))"

text \<open>\<open>s.includes(sub)\<close>: \<open>sub\<close> occurs in \<open>s\<close> as a contiguous substring.\<close>

fun stringIncludes :: "string \<Rightarrow> string \<Rightarrow> bool" where
  "stringIncludes [] sub = (sub = [])"
| "stringIncludes (c # cs) sub = (prefix sub (c # cs) \<or> stringIncludes cs sub)"

text \<open>\<open>s.split("\n")\<close>: the pieces between line feeds; the empty string gives one empty piece.\<close>

fun split :: "string \<Rightarrow> string list" where
  "split [] = [[]]"
| "split (c # cs) =
     (if c = newline then [] # split cs
      else (case split cs of [] \<Rightarrow> [[c]] | l # ls \<Rightarrow> (c # l) # ls))"

text \<open>Decimal rendering of a non-negative integer, as a template literal prints a row.\<close>

definition digitChar :: "nat \<Rightarrow> char" where
  "digitChar d = ''0123456789'' ! d"

function toString :: "nat \<Rightarrow> string" where
  "toString n = (if n < 10 then [digitChar n] else toString (n div 10) @ [digitChar (n mod 10)])"
  by pat_completeness auto
termination
  by (relation "measure (\<lambda>n. n)") auto

declare toString.simps [simp del]

section \<open>Tag-capture processor (tree-sitter/index.ts)\<close>

datatype error = TypeError | Thrown string

definition DEFAULT_MIN_COMPONENT_LINES_VALUE :: int where
  "DEFAULT_MIN_COMPONENT_LINES_VALUE = 4"

text \<open>
  The fields of a capture that \<open>processCaptures\<close> reads: the node's rows and text, and of
  its parent (if any) the rows and the end row of its last child (if any). Rows are the
  0-based, unsigned rows of tree-sitter points.
\<close>

record parent_node =
  p_startRow :: nat
  p_endRow :: nat
  p_lastChildEndRow :: "nat option"

record syntax_node =
  startRow :: nat
  endRow :: nat
  nodeText :: string
  parent :: "parent_node option"

record capture =
  node :: syntax_node
  name :: string

text \<open>
  The state of the \<open>forEach\<close> loop: the two variables of the source, and a log of the
  definitions written so far (0-based start row, 0-based end row, header line), which
  grows by one entry whenever a line is appended to \<open>formattedOutput\<close>.
\<close>

type_synonym definition_record = "nat \<times> nat \<times> string"

record loop_state =
  formattedOutput :: string
  processedLines :: "string set"
  emitted :: "definition_record list"

definition needsHtmlFiltering :: "string \<Rightarrow> bool" where
  "needsHtmlFiltering language = (language \<in> set [''jsx'', ''tsx''])"

definition htmlTags :: "string list" where
  "htmlTags = [''div'', ''span'', ''button'', ''input'', ''h1'', ''h2'', ''h3'', ''h4'', ''h5'', ''h6'',
               ''p'', ''a'', ''img'', ''ul'', ''li'', ''form'']"

text \<open>
  The regular expression
  \<^verbatim>\<open>/^[^A-Z]*<\/?(?:div|span|button|input|h[1-6]|p|a|img|ul|li|form)\b/\<close>:
  \<open>tagThenBoundary\<close> is the alternation followed by \<open>\b\<close> (every tag ends in a word
  character, so the boundary holds at the end of the string or before a non-word
  character), \<open>afterLessThan\<close> the optional slash before it, and \<open>HTML_ELEMENTS_test\<close>
  the anchored prefix of characters outside \<open>A-Z\<close> up to some \<open><\<close>.
\<close>

definition tagThenBoundary :: "string \<Rightarrow> bool" where
  "tagThenBoundary s =
     (\<exists>t \<in> set htmlTags. prefix t s \<and>
        (case drop (length t) s of [] \<Rightarrow> True | c # _ \<Rightarrow> \<not> isWordChar c))"

definition afterLessThan :: "string \<Rightarrow> bool" where
  "afterLessThan s =
     (tagThenBoundary s \<or> (case s of [] \<Rightarrow> False | c # r \<Rightarrow> c = CHR ''/'' \<and> tagThenBoundary r))"

fun HTML_ELEMENTS_test :: "string \<Rightarrow> bool" where
  "HTML_ELEMENTS_test [] = False"
| "HTML_ELEMENTS_test (c # cs) =
     ((c = CHR ''<'' \<and> afterLessThan cs) \<or> (\<not> isUpperAZ c \<and> HTML_ELEMENTS_test cs))"

definition isNotHtmlElement :: "string \<Rightarrow> string \<Rightarrow> bool" where
  "isNotHtmlElement language line =
     (if \<not> needsHtmlFiltering language then True
      else (let trimmedLine = trim line in \<not> HTML_ELEMENTS_test trimmedLine))"

text \<open>\<open>lines[i]\<close>, undefined out of range; and the same read inside a template literal.\<close>

definition lineAt :: "string list \<Rightarrow> nat \<Rightarrow> string option" where
  "lineAt lines i = (if i < length lines then Some (lines ! i) else None)"

definition lineInTemplate :: "string list \<Rightarrow> nat \<Rightarrow> string" where
  "lineInTemplate lines i = (case lineAt lines i of None \<Rightarrow> ''undefined'' | Some l \<Rightarrow> l)"

definition lineKey :: "nat \<Rightarrow> nat \<Rightarrow> string" where
  "lineKey startLine endLine = toString startLine @ ''-'' @ toString endLine"

text \<open>The line \<^verbatim>\<open>`${startLine + 1}--${endLine + 1} | ${header}\n`\<close>.\<close>

definition formatLine :: "definition_record \<Rightarrow> string" where
  "formatLine r =
     (case r of (startLine, endLine, header) \<Rightarrow>
        toString (startLine + 1) @ ''--'' @ toString (endLine + 1) @ '' | '' @ header @ [newline])"

definition emit :: "loop_state \<Rightarrow> definition_record \<Rightarrow> string \<Rightarrow> loop_state" where
  "emit st r key =
     st\<lparr> formattedOutput := formattedOutput st @ formatLine r,
         processedLines := insert key (processedLines st),
         emitted := emitted st @ [r] \<rparr>"

text \<open>The rows of \<open>definitionNode\<close>: the parent for a capture whose name contains \<open>name\<close>.\<close>

definition definitionNode :: "capture \<Rightarrow> (nat \<times> nat) option" where
  "definitionNode c =
     (if stringIncludes (name c) ''name''
      then map_option (\<lambda>p. (p_startRow p, p_endRow p)) (parent (node c))
      else Some (startRow (node c), endRow (node c)))"

text \<open>The body of the \<open>forEach\<close> callback.\<close>

definition captureCallback ::
  "int \<Rightarrow> string list \<Rightarrow> string \<Rightarrow> loop_state \<Rightarrow> capture \<Rightarrow> error + loop_state" where
  "captureCallback minComponentLines lines language st c =
     (if \<not> stringIncludes (name c) ''definition'' \<and> \<not> stringIncludes (name c) ''name'' then Inr st
      else case definitionNode c of
        None \<Rightarrow> Inr st
      | Some (startLine, endLine) \<Rightarrow>
          (let lineCount = int endLine - int startLine + 1 in
           if lineCount < minComponentLines then Inr st
           else
             (let key = lineKey startLine endLine in
              if key \<in> processedLines st then Inr st
              else case lineAt lines startLine of
                None \<Rightarrow> Inl TypeError
              | Some startText \<Rightarrow>
                  (let startLineContent = trim startText in
                   if stringIncludes (name c) ''name.definition'' then
                     (if key \<notin> processedLines st \<and> nodeText (node c) \<noteq> []
                      then Inr (emit st (startLine, endLine, startText) key)
                      else Inr st)
                   else if isNotHtmlElement language startLineContent then
                     (let st1 = emit st (startLine, endLine, startText) key in
                      case parent (node c) of
                        None \<Rightarrow> Inr st1
                      | Some p \<Rightarrow>
                          (case p_lastChildEndRow p of
                             None \<Rightarrow> Inr st1
                           | Some contextEnd \<Rightarrow>
                               (let contextSpan = int contextEnd - int (p_startRow p) + 1 in
                                if contextSpan \<ge> minComponentLines then
                                  (let rangeKey = lineKey (p_startRow p) contextEnd in
                                   if rangeKey \<notin> processedLines st1
                                   then Inr (emit st1 (p_startRow p, contextEnd,
                                                lineInTemplate lines (p_startRow p)) rangeKey)
                                   else Inr st1)
                                else Inr st1)))
                   else Inr st))))"

text \<open>\<open>captures.forEach\<close>; an exception thrown by the callback ends the loop.\<close>

fun forEachCapture ::
  "(loop_state \<Rightarrow> capture \<Rightarrow> error + loop_state) \<Rightarrow> capture list \<Rightarrow> loop_state \<Rightarrow>
   error + loop_state" where
  "forEachCapture f [] st = Inr st"
| "forEachCapture f (c # cs) st =
     (case f st c of Inl e \<Rightarrow> Inl e | Inr st' \<Rightarrow> forEachCapture f cs st')"

text \<open>
  \<open>captures.sort((a, b) => a.node.startPosition.row - b.node.startPosition.row)\<close>:
  a stable sort on the start row of the capture's own node.
\<close>

definition sortCaptures :: "capture list \<Rightarrow> capture list" where
  "sortCaptures captures = sort_key (\<lambda>c. startRow (node c)) captures"

definition initialState :: loop_state where
  "initialState = \<lparr> formattedOutput = [], processedLines = {}, emitted = [] \<rparr>"

text \<open>The loop of \<open>processCaptures\<close>, from the sort to the end of the \<open>forEach\<close>.\<close>

definition processCapturesLoop ::
  "int \<Rightarrow> capture list \<Rightarrow> string list \<Rightarrow> string \<Rightarrow> error + loop_state" where
  "processCapturesLoop minComponentLines captures lines language =
     forEachCapture (captureCallback minComponentLines lines language)
       (sortCaptures captures) initialState"

definition processCaptures ::
  "int \<Rightarrow> capture list \<Rightarrow> string list \<Rightarrow> string \<Rightarrow> error + string option" where
  "processCaptures minComponentLines captures lines language =
     (if captures = [] then Inr None
      else case processCapturesLoop minComponentLines captures lines language of
        Inl e \<Rightarrow> Inl e
      | Inr st \<Rightarrow> (if length (formattedOutput st) > 0 then Inr (Some (formattedOutput st))
                   else Inr None))"


section \<open>Definitions of a file and of a directory (tree-sitter/index.ts)\<close>

definition extensions :: "string list" where
  "extensions = map (\<lambda>e. ''.'' @ e)
     [''tla'', ''js'', ''jsx'', ''ts'', ''vue'', ''tsx'', ''py'', ''rs'', ''go'', ''c'', ''h'', ''cpp'', ''hpp'',
      ''cs'', ''rb'', ''java'', ''php'', ''swift'', ''sol'', ''kt'', ''kts'', ''ex'', ''exs'', ''el'', ''html'',
      ''htm'', ''md'', ''markdown'', ''json'', ''css'', ''rdl'', ''ml'', ''mli'', ''lua'', ''scala'', ''toml'',
      ''zig'', ''elm'', ''ejs'', ''erb'']"

text \<open>
  The \<open>TreeSitterDependencies\<close> the functions are given: the file system (a file read
  gives the decoded text or throws), the workspace and the path utilities.
\<close>

record TreeSitterDependencies =
  fileSystem_exists :: "string \<Rightarrow> bool"
  fileSystem_readFile :: "string \<Rightarrow> error + string"
  workspace_shouldIgnore :: "string \<Rightarrow> bool"
  workspace_findFiles :: "string list"
  pathUtils_extname :: "string \<Rightarrow> string"
  pathUtils_basename :: "string \<Rightarrow> string"
  pathUtils_relative :: "string \<Rightarrow> string \<Rightarrow> string"

text \<open>
  The two imported modules, markdownParser and languageParser, are not modelled;
  what they export is a parameter: \<open>parseMarkdown\<close> gives the captures
  of a markdown text; \<open>loadRequiredLanguageParsers\<close> gives, for a list of files, a table
  from language key to a parser with its query, here one function from the file's text
  to its captures (\<open>parser.parse\<close> followed by \<open>query.captures\<close>). Each may throw.
\<close>

type_synonym LanguageParser = "string \<Rightarrow> (string \<Rightarrow> error + capture list) option"

record ParserModules =
  parseMarkdown :: "string \<Rightarrow> error + capture list"
  loadRequiredLanguageParsers :: "string list \<Rightarrow> error + LanguageParser"

definition isMarkdownExt :: "string \<Rightarrow> bool" where
  "isMarkdownExt ext = (ext = ''.md'' \<or> ext = ''.markdown'')"

text \<open>
  \<open>parseFile\<close>: a failing read is outside the \<open>try\<close> and propagates; whatever the parser,
  the query or \<open>processCaptures\<close> throws is caught and gives \<open>null\<close>.
\<close>

definition parseFile ::
  "int \<Rightarrow> string \<Rightarrow> LanguageParser \<Rightarrow> TreeSitterDependencies \<Rightarrow> error + string option" where
  "parseFile minComponentLines filePath languageParsers dependencies =
     (if workspace_shouldIgnore dependencies filePath then Inr None
      else case fileSystem_readFile dependencies filePath of
        Inl e \<Rightarrow> Inl e
      | Inr fileContent \<Rightarrow>
          (let extLang = drop 1 (toLowerCase (pathUtils_extname dependencies filePath)) in
           case languageParsers extLang of
             None \<Rightarrow> Inr (Some (''Unsupported file type: '' @ filePath))
           | Some parserAndQuery \<Rightarrow>
               (case parserAndQuery fileContent of
                  Inl e \<Rightarrow> Inr None
                | Inr captures \<Rightarrow>
                    (let lines = split fileContent in
                     case processCaptures minComponentLines captures lines extLang of
                       Inl e \<Rightarrow> Inr None
                     | Inr r \<Rightarrow> Inr r))))"

text \<open>\<open>if (definitions) return `# ${basename}\n${definitions}`\<close>, else \<open>undefined\<close>.\<close>

definition withHeader :: "string \<Rightarrow> string option \<Rightarrow> string option" where
  "withHeader title definitions =
     (case definitions of
        None \<Rightarrow> None
      | Some d \<Rightarrow> (if d \<noteq> [] then Some (''# '' @ title @ [newline] @ d) else None))"

definition parseSourceCodeDefinitionsForFile ::
  "int \<Rightarrow> ParserModules \<Rightarrow> string \<Rightarrow> TreeSitterDependencies \<Rightarrow> error + string option" where
  "parseSourceCodeDefinitionsForFile minComponentLines modules filePath dependencies =
     (if \<not> fileSystem_exists dependencies filePath
      then Inr (Some ''This file does not exist or you do not have permission to access it.'')
      else
        (let ext = toLowerCase (pathUtils_extname dependencies filePath) in
         if ext \<notin> set extensions then Inr None
         else if isMarkdownExt ext then
           (if workspace_shouldIgnore dependencies filePath then Inr None
            else case fileSystem_readFile dependencies filePath of
              Inl e \<Rightarrow> Inl e
            | Inr fileContent \<Rightarrow>
                (let lines = split fileContent in
                 case parseMarkdown modules fileContent of
                   Inl e \<Rightarrow> Inl e
                 | Inr markdownCaptures \<Rightarrow>
                     (case processCaptures minComponentLines markdownCaptures lines ''markdown'' of
                        Inl e \<Rightarrow> Inl e
                      | Inr markdownDefinitions \<Rightarrow>
                          Inr (withHeader (pathUtils_basename dependencies filePath)
                                 markdownDefinitions))))
         else case loadRequiredLanguageParsers modules [filePath] of
           Inl e \<Rightarrow> Inl e
         | Inr languageParsers \<Rightarrow>
             (case parseFile minComponentLines filePath languageParsers dependencies of
                Inl e \<Rightarrow> Inl e
              | Inr definitions \<Rightarrow>
                  Inr (withHeader (pathUtils_basename dependencies filePath) definitions))))"

text \<open>\<open>separateFiles\<close>: the extension is compared as it is, without lowercasing.\<close>

definition separateFiles ::
  "string list \<Rightarrow> TreeSitterDependencies \<Rightarrow> string list \<times> string list" where
  "separateFiles allFiles pathUtils =
     (let filesToParse =
            take 50 (filter (\<lambda>file. pathUtils_extname pathUtils file \<in> set extensions) allFiles);
          remainingFiles = filter (\<lambda>file. file \<notin> set filesToParse) allFiles
      in (filesToParse, remainingFiles))"

text \<open>
  The loop over the markdown files: everything in its \<open>try\<close> that throws is logged and
  the file is skipped. The loop over the other files: an exception of \<open>parseFile\<close>
  propagates.
\<close>

fun markdownFilesLoop ::
  "int \<Rightarrow> ParserModules \<Rightarrow> string \<Rightarrow> TreeSitterDependencies \<Rightarrow> string list \<Rightarrow> string \<Rightarrow> string"
  where
  "markdownFilesLoop minComponentLines modules dirPath dependencies [] result = result"
| "markdownFilesLoop minComponentLines modules dirPath dependencies (file # files) result =
     markdownFilesLoop minComponentLines modules dirPath dependencies files
       (if workspace_shouldIgnore dependencies file then result
        else case fileSystem_readFile dependencies file of
          Inl e \<Rightarrow> result
        | Inr fileContent \<Rightarrow>
            (let lines = split fileContent in
             case parseMarkdown modules fileContent of
               Inl e \<Rightarrow> result
             | Inr markdownCaptures \<Rightarrow>
                 (case processCaptures minComponentLines markdownCaptures lines ''markdown'' of
                    Inl e \<Rightarrow> result
                  | Inr None \<Rightarrow> result
                  | Inr (Some markdownDefinitions) \<Rightarrow>
                      (if markdownDefinitions \<noteq> []
                       then result @ ''# '' @ pathUtils_relative dependencies dirPath file
                              @ [newline] @ markdownDefinitions @ [newline]
                       else result))))"

fun otherFilesLoop ::
  "int \<Rightarrow> LanguageParser \<Rightarrow> string \<Rightarrow> TreeSitterDependencies \<Rightarrow> string list \<Rightarrow> string \<Rightarrow>
   error + string" where
  "otherFilesLoop minComponentLines languageParsers dirPath dependencies [] result = Inr result"
| "otherFilesLoop minComponentLines languageParsers dirPath dependencies (file # files) result =
     (case parseFile minComponentLines file languageParsers dependencies of
        Inl e \<Rightarrow> Inl e
      | Inr None \<Rightarrow>
          otherFilesLoop minComponentLines languageParsers dirPath dependencies files result
      | Inr (Some definitions) \<Rightarrow>
          otherFilesLoop minComponentLines languageParsers dirPath dependencies files
            (if definitions \<noteq> []
             then result @ ''# '' @ pathUtils_relative dependencies dirPath file
                    @ [newline] @ definitions @ [newline]
             else result))"

definition parseSourceCodeForDefinitionsTopLevel ::
  "int \<Rightarrow> ParserModules \<Rightarrow> string \<Rightarrow> TreeSitterDependencies \<Rightarrow> error + string" where
  "parseSourceCodeForDefinitionsTopLevel minComponentLines modules dirPath dependencies =
     (if \<not> fileSystem_exists dependencies dirPath
      then Inr ''This directory does not exist or you do not have permission to access it.''
      else
        (let allFiles = workspace_findFiles dependencies;
             filesToParse = fst (separateFiles allFiles dependencies);
             allowedFilesToParse =
               filter (\<lambda>file. \<not> workspace_shouldIgnore dependencies file) filesToParse;
             isMarkdown =
               (\<lambda>file. isMarkdownExt (toLowerCase (pathUtils_extname dependencies file)));
             markdownFiles = filter isMarkdown allowedFilesToParse;
             otherFiles = filter (\<lambda>file. \<not> isMarkdown file) allowedFilesToParse
         in case loadRequiredLanguageParsers modules otherFiles of
           Inl e \<Rightarrow> Inl e
         | Inr languageParsers \<Rightarrow>
             (let result = markdownFilesLoop minComponentLines modules dirPath dependencies
                             markdownFiles []
              in case otherFilesLoop minComponentLines languageParsers dirPath dependencies
                        otherFiles result of
                   Inl e \<Rightarrow> Inl e
                 | Inr result' \<Rightarrow>
                     Inr (if result' \<noteq> [] then result'
                          else ''No source code definitions found.''))))"

section \<open>Notions used to state the properties\<close>

text \<open>The number of lines and the line range of a logged definition.\<close>

definition spanOf :: "definition_record \<Rightarrow> int" where
  "spanOf r = int (fst (snd r)) - int (fst r) + 1"

definition rangeOf :: "definition_record \<Rightarrow> nat \<times> nat" where
  "rangeOf r = (fst r, fst (snd r))"

text \<open>
  Every logged range is distinct from the others and its key is in \<open>processedLines\<close>:
  the invariant of the loop behind the deduplication.
\<close>

definition rangesRecorded :: "loop_state \<Rightarrow> bool" where
  "rangesRecorded st =
     (distinct (map rangeOf (emitted st)) \<and>
      (\<forall>r \<in> set (emitted st). lineKey (fst r) (fst (snd r)) \<in> processedLines st))"

text \<open>
  The output is the log, formatted line by line, and every logged header is the line of
  the file at the logged start row.
\<close>

definition outputMatchesLog :: "string list \<Rightarrow> loop_state \<Rightarrow> bool" where
  "outputMatchesLog lines st =
     (formattedOutput st = concat (map formatLine (emitted st)) \<and>
      (\<forall>r \<in> set (emitted st). fst r < length lines \<and> snd (snd r) = lines ! fst r))"

text \<open>
  A capture the HTML-element rule applies to: its name lacks \<open>name.definition\<close> and the
  line at the start of its definition node, trimmed, matches the regular expression.
\<close>

definition startsOnHtmlElement :: "string list \<Rightarrow> capture \<Rightarrow> bool" where
  "startsOnHtmlElement lines c =
     (case definitionNode c of
        None \<Rightarrow> False
      | Some (startLine, endLine) \<Rightarrow>
          (case lineAt lines startLine of
             None \<Rightarrow> False
           | Some startText \<Rightarrow> HTML_ELEMENTS_test (trim startText)))"

definition htmlFiltered :: "string list \<Rightarrow> capture \<Rightarrow> bool" where
  "htmlFiltered lines c =
     (\<not> stringIncludes (name c) ''name.definition'' \<and> startsOnHtmlElement lines c)"

text \<open>
  A logged definition comes from a capture: its range is that of the capture's definition
  node, or runs from the start of the parent of the capture's node to the end of the
  parent's last child.
\<close>

definition recordOfCapture :: "capture \<Rightarrow> definition_record \<Rightarrow> bool" where
  "recordOfCapture c r =
     (definitionNode c = Some (rangeOf r) \<or>
      (case parent (node c) of
         None \<Rightarrow> False
       | Some p \<Rightarrow>
           (case p_lastChildEndRow p of
              None \<Rightarrow> False
            | Some contextEnd \<Rightarrow> rangeOf r = (p_startRow p, contextEnd))))"

text \<open>The parent of every capture that has one starts on a line of the file.\<close>

definition parentRowsInFile :: "string list \<Rightarrow> capture list \<Rightarrow> bool" where
  "parentRowsInFile lines captures =
     (\<forall>c \<in> set captures. case parent (node c) of
        None \<Rightarrow> True | Some p \<Rightarrow> p_startRow p < length lines)"


section \<open>Example inputs\<close>

text \<open>A model table that knows no model, and a default model id.\<close>

definition exampleDefaultModelId :: "string \<Rightarrow> string" where
  "exampleDefaultModelId provider = ''text-embedding-3-small''"

definition exampleNoDimension :: "string \<Rightarrow> string \<Rightarrow> number option" where
  "exampleNoDimension provider model = None"

text \<open>An enabled openai controller with and without its API key, on model \<open>b\<close>.\<close>

definition exampleConfigured :: CodeIndexConfigManager where
  "exampleConfigured =
     \<lparr> isEnabled = True, embedderProvider = ''openai'', modelId = Some ''b'',
       openAiOptions = Some \<lparr> apiKey = Some ''key'', openAiNativeApiKey = Some ''key'',
                              ollamaBaseUrl = None \<rparr>,
       ollamaOptions = None, openAiCompatibleOptions = None,
       qdrantUrl = Some ''http://localhost:6333'', qdrantApiKey = Some [] \<rparr>"

definition exampleUnconfigured :: CodeIndexConfigManager where
  "exampleUnconfigured = exampleConfigured\<lparr> openAiOptions := None \<rparr>"

text \<open>The snapshots of the same two controllers when they were on model \<open>a\<close>.\<close>

definition exampleConfiguredBefore :: ConfigSnapshot where
  "exampleConfiguredBefore = previousConfigSnapshot (exampleConfigured\<lparr> modelId := Some ''a'' \<rparr>)"

definition exampleUnconfiguredBefore :: ConfigSnapshot where
  "exampleUnconfiguredBefore =
     previousConfigSnapshot (exampleUnconfigured\<lparr> modelId := Some ''a'' \<rparr>)"



text \<open>A four-line TypeScript file with the two captures of its function.\<close>

definition exampleContent :: string where
  "exampleContent =
     ''function f() {'' @ [newline] @ ''  return 1'' @ [newline] @ [newline] @ ''}''"

definition exampleCaptures :: "capture list" where
  "exampleCaptures =
     [\<lparr>node = \<lparr>startRow = 0, endRow = 3, nodeText = exampleContent, parent = None\<rparr>,
       name = ''definition.function''\<rparr>,
      \<lparr>node = \<lparr>startRow = 0, endRow = 0, nodeText = ''f'',
               parent = Some \<lparr>p_startRow = 0, p_endRow = 3, p_lastChildEndRow = Some 3\<rparr>\<rparr>,
       name = ''name.definition.function''\<rparr>]"

definition exampleExtname :: "string \<Rightarrow> string" where
  "exampleExtname path =
     (if CHR ''.'' \<in> set path
      then CHR ''.'' # rev (takeWhile (\<lambda>c. c \<noteq> CHR ''.'') (rev path)) else [])"

definition exampleBasename :: "string \<Rightarrow> string" where
  "exampleBasename path = rev (takeWhile (\<lambda>c. c \<noteq> CHR ''/'') (rev path))"

definition exampleDependencies :: TreeSitterDependencies where
  "exampleDependencies =
     \<lparr> fileSystem_exists = (\<lambda>path. path \<in> set [''/ws'', ''/ws/a.ts'', ''/ws/notes.txt'']),
       fileSystem_readFile = (\<lambda>path. if path = ''/ws/a.ts'' then Inr exampleContent
                                      else Inl (Thrown ''ENOENT'')),
       workspace_shouldIgnore = (\<lambda>path. False),
       workspace_findFiles = [''/ws/a.ts'', ''/ws/notes.txt''],
       pathUtils_extname = exampleExtname,
       pathUtils_basename = exampleBasename,
       pathUtils_relative = (\<lambda>dir path. drop (length dir + 1) path) \<rparr>"

definition exampleModules :: ParserModules where
  "exampleModules =
     \<lparr> parseMarkdown = (\<lambda>content. Inr []),
       loadRequiredLanguageParsers =
         (\<lambda>files. Inr (\<lambda>language. if language = ''ts''
                                    then Some (\<lambda>content. Inr exampleCaptures) else None)) \<rparr>"

text \<open>An eight-line TSX file: a \<open>div\<close> element, then a component.\<close>

definition exampleTsxLines :: "string list" where
  "exampleTsxLines =
     [''  <div className=x>'', ''    <span>hi</span>'', ''    <p>text</p>'', ''  </div>'',
      ''const Button = () => ('', ''  <button>'', ''    ok'', ''  </button>)'']"

definition exampleDivCapture :: capture where
  "exampleDivCapture =
     \<lparr>node = \<lparr>startRow = 0, endRow = 3, nodeText = ''div'', parent = None\<rparr>,
      name = ''definition.component''\<rparr>"

definition exampleDivNameCapture :: capture where
  "exampleDivNameCapture =
     \<lparr>node = \<lparr>startRow = 0, endRow = 0, nodeText = ''div'',
              parent = Some \<lparr>p_startRow = 0, p_endRow = 3, p_lastChildEndRow = Some 3\<rparr>\<rparr>,
      name = ''name.definition.component''\<rparr>"

definition exampleButtonCapture :: capture where
  "exampleButtonCapture =
     \<lparr>node = \<lparr>startRow = 4, endRow = 7, nodeText = ''Button'', parent = None\<rparr>,
      name = ''definition.function''\<rparr>"

text \<open>The component again, as the last child of a node that starts on the \<open>div\<close> line.\<close>

definition exampleNestedCapture :: capture where
  "exampleNestedCapture =
     \<lparr>node = \<lparr>startRow = 4, endRow = 7, nodeText = ''Button'',
              parent = Some \<lparr>p_startRow = 0, p_endRow = 7, p_lastChildEndRow = Some 7\<rparr>\<rparr>,
      name = ''definition.function''\<rparr>"

text \<open>A two-line and a four-line markdown section.\<close>

definition exampleShortSection :: capture where
  "exampleShortSection =
     \<lparr>node = \<lparr>startRow = 0, endRow = 1, nodeText = ''Title'', parent = None\<rparr>,
      name = ''definition.header''\<rparr>"

definition exampleLongSection :: capture where
  "exampleLongSection =
     \<lparr>node = \<lparr>startRow = 0, endRow = 3, nodeText = ''Title'', parent = None\<rparr>,
      name = ''definition.header''\<rparr>"

definition exampleMarkdownLines :: "string list" where
  "exampleMarkdownLines = [''# Title'', ''one'', ''two'', ''three'']"






section \<open>The restart decision\<close>





text \<open>
  C4, as stated, fails: the feature is enabled before and after, the model id changes
  from \<open>a\<close> to \<open>b\<close>, no dimension is known, and still no restart is asked for, because
  the controller was not configured before and is not configured now.
\<close>

theorem restart_unresolvable_both_unconfigured:
  "isEnabled exampleUnconfigured
   \<and> cs_enabled exampleUnconfiguredBefore = Some True
   \<and> cs_modelId exampleUnconfiguredBefore = Some ''a''
   \<and> modelId exampleUnconfigured = Some ''b''
   \<and> exampleNoDimension ''openai'' ''a'' = None
   \<and> exampleNoDimension ''openai'' ''b'' = None
   \<and> doesConfigChangeRequireRestart exampleDefaultModelId exampleNoDimension
         exampleUnconfigured (Some exampleUnconfiguredBefore) = False"
  by (simp add: doesConfigChangeRequireRestart_def previousConfigSnapshot_def
      hasVectorDimensionChanged_def nullish_def Let_def isConfigured_def truthy_def
      exampleUnconfigured_def exampleUnconfiguredBefore_def exampleConfigured_def
      exampleNoDimension_def)

text \<open>
  C4, amended. When the feature is or was enabled, the controller is or was configured,
  the provider or the resolved model id changed, and the dimension of the previous or of
  the current (provider, model id) pair is not known to \<open>getModelDimension\<close>, a restart
  is required.
\<close>

theorem restart_on_unresolvable_dimension:
  assumes "isEnabled this \<or> nullish (Option.bind prev cs_enabled) False"
    and "nullish (Option.bind prev cs_configured) False \<or> isConfigured this"
    and "nullish (Option.bind prev cs_embedderProvider) ''openai'' \<noteq> embedderProvider this \<or>
         nullish (Option.bind prev cs_modelId)
           (getDefaultModelId (nullish (Option.bind prev cs_embedderProvider) ''openai'')) \<noteq>
         nullish (modelId this) (getDefaultModelId (embedderProvider this))"
    and "getModelDimension (nullish (Option.bind prev cs_embedderProvider) ''openai'')
           (nullish (Option.bind prev cs_modelId)
              (getDefaultModelId (nullish (Option.bind prev cs_embedderProvider) ''openai''))) = None \<or>
         getModelDimension (embedderProvider this)
           (nullish (modelId this) (getDefaultModelId (embedderProvider this))) = None"
  shows "doesConfigChangeRequireRestart getDefaultModelId getModelDimension this prev = True"
proof -
  let ?prevProvider = "nullish (Option.bind prev cs_embedderProvider) ''openai''"
  have changed: "?prevProvider \<noteq> embedderProvider this \<or>
      hasVectorDimensionChanged getDefaultModelId getModelDimension this ?prevProvider
        (Option.bind prev cs_modelId)"
    using assms(3,4) by (auto simp: hasVectorDimensionChanged_def Let_def)
  show ?thesis
    using assms(1,2) changed
    by (simp add: doesConfigChangeRequireRestart_def Let_def) blast
qed

theorem restart_on_unresolvable_dimension_witness:
  "isConfigured exampleConfigured
   \<and> doesConfigChangeRequireRestart exampleDefaultModelId exampleNoDimension
       exampleConfigured (Some exampleConfiguredBefore) = True"
  using restart_on_unresolvable_dimension
    [of exampleConfigured "Some exampleConfiguredBefore" exampleDefaultModelId exampleNoDimension]
  by (simp add: previousConfigSnapshot_def nullish_def isConfigured_def truthy_def
      exampleConfigured_def exampleConfiguredBefore_def exampleNoDimension_def)

section \<open>The loop of the tag-capture processor\<close>

lemma forEachCapture_invariant:
  assumes "forEachCapture f cs st = Inr st'" and "P st"
    and "\<And>s c s'. P s \<Longrightarrow> c \<in> set cs \<Longrightarrow> f s c = Inr s' \<Longrightarrow> P s'"
  shows "P st'"
  using assms
proof (induction cs arbitrary: st)
  case Nil
  then show ?case by simp
next
  case (Cons c cs)
  from Cons.prems(1) obtain s1 where s1: "f st c = Inr s1"
    and rest: "forEachCapture f cs s1 = Inr st'"
    by (auto split: sum.splits)
  have "P s1" using Cons.prems(2) s1 Cons.prems(3)[of st c s1] by simp
  moreover have "\<And>s d s'. P s \<Longrightarrow> d \<in> set cs \<Longrightarrow> f s d = Inr s' \<Longrightarrow> P s'"
    using Cons.prems(3) by (meson list.set_intros(2))
  ultimately show ?case using Cons.IH[OF rest] by blast
qed

text \<open>
  What one call of the callback does to the state when it returns: nothing, or it logs
  the definition node, or it logs the definition node and then the context range.
\<close>

lemma captureCallback_cases:
  assumes "captureCallback m lines language st c = Inr st'"
  shows "st' = st
    \<or> (\<exists>s e t. definitionNode c = Some (s, e) \<and> m \<le> int e - int s + 1
          \<and> lineAt lines s = Some t \<and> lineKey s e \<notin> processedLines st
          \<and> (st' = emit st (s, e, t) (lineKey s e)
             \<or> (\<exists>p ce. parent (node c) = Some p \<and> p_lastChildEndRow p = Some ce
                   \<and> m \<le> int ce - int (p_startRow p) + 1
                   \<and> lineKey (p_startRow p) ce \<notin> processedLines (emit st (s, e, t) (lineKey s e))
                   \<and> st' = emit (emit st (s, e, t) (lineKey s e))
                       (p_startRow p, ce, lineInTemplate lines (p_startRow p))
                       (lineKey (p_startRow p) ce))))"
  using assms unfolding captureCallback_def Let_def
  by (auto split: if_splits option.splits prod.splits)

lemma emitted_emit [simp]: "emitted (emit st r k) = emitted st @ [r]"
  and processedLines_emit [simp]: "processedLines (emit st r k) = insert k (processedLines st)"
  and formattedOutput_emit [simp]:
    "formattedOutput (emit st r k) = formattedOutput st @ formatLine r"
  by (simp_all add: emit_def)

lemma set_sortCaptures [simp]: "set (sortCaptures cs) = set cs"
  by (simp add: sortCaptures_def)

section \<open>Minimum span\<close>

text \<open>
  C2, as stated, fails for markdown: with the default minimum of 4 lines a two-line
  markdown section is discarded like any other capture; it is kept once the minimum
  is 2.
\<close>

theorem markdown_short_span_discarded:
  "processCaptures DEFAULT_MIN_COMPONENT_LINES_VALUE [exampleShortSection]
      exampleMarkdownLines ''markdown'' = Inr None
   \<and> processCaptures 2 [exampleShortSection] exampleMarkdownLines ''markdown''
       = Inr (Some (''1--2 | # Title'' @ [newline]))"
  by code_simp

text \<open>
  C2, amended. Every definition logged by the loop of \<open>processCaptures\<close> spans at least
  the minimum number of lines (end row - start row + 1), for every language key,
  markdown included: a capture with a smaller span writes nothing.
\<close>

theorem emitted_span_at_least_min:
  assumes "processCapturesLoop minComponentLines captures lines language = Inr st"
  shows "\<forall>r \<in> set (emitted st). spanOf r \<ge> minComponentLines"
proof -
  let ?P = "\<lambda>s. \<forall>r \<in> set (emitted s). spanOf r \<ge> minComponentLines"
  have step: "?P s'"
    if "?P s" and "captureCallback minComponentLines lines language s c = Inr s'" for s c s'
    using captureCallback_cases[OF that(2)] that(1) by (auto simp: spanOf_def)
  have "?P initialState" by (simp add: initialState_def)
  with assms step show ?thesis
    unfolding processCapturesLoop_def
    by (rule_tac forEachCapture_invariant[where P="?P"]) blast+
qed

theorem emitted_span_at_least_min_witness:
  "processCapturesLoop 4 [exampleShortSection, exampleLongSection] exampleMarkdownLines
      ''markdown''
     = Inr \<lparr> formattedOutput = ''1--4 | # Title'' @ [newline],
             processedLines = {''0-3''},
             emitted = [(0, 3, ''# Title'')] \<rparr>
   \<and> spanOf (0, 3, ''# Title'') \<ge> 4"
proof -
  have run: "processCapturesLoop 4 [exampleShortSection, exampleLongSection]
      exampleMarkdownLines ''markdown''
     = Inr \<lparr> formattedOutput = ''1--4 | # Title'' @ [newline],
             processedLines = {''0-3''},
             emitted = [(0, 3, ''# Title'')] \<rparr>"
    by code_simp
  show ?thesis
    using run emitted_span_at_least_min[OF run] by simp
qed

section \<open>Deduplication\<close>

lemma rangesRecorded_emit:
  assumes "rangesRecorded st" and "lineKey a b \<notin> processedLines st"
  shows "rangesRecorded (emit st (a, b, h) (lineKey a b))"
proof -
  have "(a, b) \<notin> rangeOf ` set (emitted st)"
  proof
    assume "(a, b) \<in> rangeOf ` set (emitted st)"
    then obtain r where "r \<in> set (emitted st)" and "rangeOf r = (a, b)" by auto
    then have "lineKey a b \<in> processedLines st"
      using assms(1) by (auto simp: rangesRecorded_def rangeOf_def)
    with assms(2) show False by simp
  qed
  then show ?thesis
    using assms(1) by (simp add: rangesRecorded_def rangeOf_def)
qed

text \<open>
  C5. The definitions logged for one list of captures have pairwise different
  (start row, end row) ranges: a capture that resolves to a range already written
  writes nothing, whatever its node or its capture name.
\<close>

theorem emitted_ranges_distinct:
  assumes "processCapturesLoop minComponentLines captures lines language = Inr st"
  shows "distinct (map rangeOf (emitted st))"
proof -
  have step: "rangesRecorded s'"
    if "rangesRecorded s" and "captureCallback minComponentLines lines language s c = Inr s'"
    for s c s'
    using captureCallback_cases[OF that(2)] that(1)
    by (elim disjE exE conjE) (simp_all add: rangesRecorded_emit)
  have "rangesRecorded initialState" by (simp add: initialState_def rangesRecorded_def)
  with assms step have "rangesRecorded st"
    unfolding processCapturesLoop_def
    by (rule_tac forEachCapture_invariant[where P=rangesRecorded]) blast+
  then show ?thesis by (simp add: rangesRecorded_def)
qed

theorem emitted_ranges_distinct_witness:
  "processCapturesLoop 4 exampleCaptures (split exampleContent) ''ts''
     = Inr \<lparr> formattedOutput = ''1--4 | function f() {'' @ [newline],
             processedLines = {''0-3''},
             emitted = [(0, 3, ''function f() {'')] \<rparr>
   \<and> distinct (map rangeOf [(0, 3, ''function f() {'')])"
proof -
  have run: "processCapturesLoop 4 exampleCaptures (split exampleContent) ''ts''
     = Inr \<lparr> formattedOutput = ''1--4 | function f() {'' @ [newline],
             processedLines = {''0-3''},
             emitted = [(0, 3, ''function f() {'')] \<rparr>"
    by code_simp
  show ?thesis
    using run emitted_ranges_distinct[OF run] by simp
qed

section \<open>The HTML-element rule\<close>

lemma dropWhile_trim: "dropWhile isWhiteSpace (trim s) = trim s"
proof (cases "trim s")
  case Nil
  then show ?thesis by simp
next
  case (Cons a v)
  let ?u = "dropWhile isWhiteSpace s"
  have "suffix (dropWhile isWhiteSpace (rev ?u)) (rev ?u)" by (rule suffix_dropWhile)
  then have "prefix (trim s) ?u"
    unfolding trim_def by (metis rev_rev_ident suffix_to_prefix)
  with Cons obtain w where u: "?u = a # w" by (auto simp: prefix_def)
  then have "\<not> isWhiteSpace a" by (metis hd_dropWhile list.sel(1) list.distinct(1))
  with Cons show ?thesis by simp
qed

lemma trim_idem: "trim (trim s) = trim s"
proof -
  have "trim (trim s) = rev (dropWhile isWhiteSpace (rev (trim s)))"
    by (simp add: trim_def[of "trim s"] dropWhile_trim)
  also have "\<dots> = trim s"
    by (simp add: trim_def dropWhile_idem)
  finally show ?thesis .
qed

text \<open>The callback leaves the state as it is on a capture the rule applies to.\<close>

lemma htmlFiltered_callback:
  assumes "needsHtmlFiltering language" and "htmlFiltered lines c"
  shows "captureCallback m lines language st c = Inr st"
  using assms
  unfolding captureCallback_def htmlFiltered_def startsOnHtmlElement_def isNotHtmlElement_def
    Let_def
  by (auto split: option.splits simp: trim_idem)

lemma forEachCapture_filter:
  assumes "\<And>c st. \<not> P c \<Longrightarrow> f st c = Inr st"
  shows "forEachCapture f (filter P cs) st = forEachCapture f cs st"
  by (induction cs arbitrary: st) (auto simp: assms split: sum.splits)

lemma sortCaptures_filter: "sortCaptures (filter P cs) = filter P (sortCaptures cs)"
  by (simp add: sortCaptures_def filter_sort)

lemma processCapturesLoop_filter:
  assumes "needsHtmlFiltering language"
  shows "processCapturesLoop m (filter (\<lambda>c. \<not> htmlFiltered lines c) captures) lines language
       = processCapturesLoop m captures lines language"
  unfolding processCapturesLoop_def sortCaptures_filter
  by (rule forEachCapture_filter) (simp add: htmlFiltered_callback[OF assms])

text \<open>
  C3, as stated, fails for a capture whose name contains \<open>name.definition\<close>: in a TSX
  file such a capture is written although the first line of its definition matches the
  HTML-element expression.
\<close>

theorem html_name_definition_kept:
  "needsHtmlFiltering ''tsx''
   \<and> stringIncludes (name exampleDivNameCapture) ''name.definition''
   \<and> HTML_ELEMENTS_test (trim (exampleTsxLines ! 0))
   \<and> processCaptures 4 [exampleDivNameCapture] exampleTsxLines ''tsx''
       = Inr (Some (''1--4 |   <div className=x>'' @ [newline]))"
  by code_simp

lemma stringIncludes_sublist: "stringIncludes s sub \<longleftrightarrow> sublist sub s"
  by (induction s) (simp_all add: sublist_Cons_right)

lemma stringIncludes_name_definition:
  assumes "stringIncludes n ''name.definition''"
  shows "stringIncludes n ''name''"
proof -
  from assms obtain ps ss where "n = ps @ ''name.definition'' @ ss"
    by (auto simp: stringIncludes_sublist sublist_def)
  then have "n = ps @ ''name'' @ (''.definition'' @ ss)" by simp
  then show ?thesis unfolding stringIncludes_sublist sublist_def by blast
qed

text \<open>
  A capture whose name contains \<open>name.definition\<close> never reaches the HTML test: what the
  callback does with it is the same in every language.
\<close>

lemma name_definition_callback:
  assumes "stringIncludes (name c) ''name.definition''"
  shows "captureCallback m lines language st c =
     (case definitionNode c of
        None \<Rightarrow> Inr st
      | Some (s, e) \<Rightarrow>
          if int e - int s + 1 < m \<or> lineKey s e \<in> processedLines st then Inr st
          else (case lineAt lines s of
                  None \<Rightarrow> Inl TypeError
                | Some t \<Rightarrow> if nodeText (node c) \<noteq> []
                            then Inr (emit st (s, e, t) (lineKey s e)) else Inr st))"
  using assms stringIncludes_name_definition[OF assms]
  unfolding captureCallback_def Let_def
  by (auto split: option.splits)

text \<open>
  A capture that passes the filter writes its own range and then, without any test of
  the line it starts on, the range of its context.
\<close>

lemma context_callback:
  assumes "\<not> stringIncludes (name c) ''name.definition''"
    and "stringIncludes (name c) ''definition'' \<or> stringIncludes (name c) ''name''"
    and "definitionNode c = Some (s, e)" and "m \<le> int e - int s + 1"
    and "lineKey s e \<notin> processedLines st" and "lineAt lines s = Some t"
    and "isNotHtmlElement language (trim t)"
    and "parent (node c) = Some p" and "p_lastChildEndRow p = Some ce"
    and "m \<le> int ce - int (p_startRow p) + 1"
    and "lineKey (p_startRow p) ce \<noteq> lineKey s e"
    and "lineKey (p_startRow p) ce \<notin> processedLines st"
  shows "captureCallback m lines language st c =
           Inr (emit (emit st (s, e, t) (lineKey s e))
                  (p_startRow p, ce, lineInTemplate lines (p_startRow p))
                  (lineKey (p_startRow p) ce))"
  using assms unfolding captureCallback_def Let_def
  by (auto simp: emit_def)

text \<open>
  C3, amended. For the language keys \<open>jsx\<close> and \<open>tsx\<close>, a capture whose name does not
  contain \<open>name.definition\<close> and whose definition starts on a line that matches the
  HTML-element expression writes nothing: the output is the output for the captures
  without them. For every other language key the rule drops nothing: \<open>isNotHtmlElement\<close>
  holds of every line. The expression is not applied to a capture whose name contains
  \<open>name.definition\<close>: the callback does the same with it in every language, and writes
  it whenever its definition node spans the minimum, its range is not yet written, the
  line at its start exists and its node text is not empty. Nor is it applied to the
  context range that a capture which passes the filter writes after its own range. A
  line that matches the expression can so still be written in these two ways.
\<close>

theorem html_elements_dropped_unless_name_definition:
  "(needsHtmlFiltering language \<longrightarrow>
      processCaptures m captures lines language =
      processCaptures m (filter (\<lambda>c. \<not> htmlFiltered lines c) captures) lines language)
   \<and> (\<not> needsHtmlFiltering language \<longrightarrow> isNotHtmlElement language line)
   \<and> (stringIncludes (name c) ''name.definition'' \<longrightarrow>
        captureCallback m lines language st c = captureCallback m lines language' st c)
   \<and> (stringIncludes (name c) ''name.definition'' \<and> definitionNode c = Some (s, e)
        \<and> m \<le> int e - int s + 1 \<and> lineKey s e \<notin> processedLines st
        \<and> lineAt lines s = Some t \<and> nodeText (node c) \<noteq> [] \<longrightarrow>
        captureCallback m lines language st c = Inr (emit st (s, e, t) (lineKey s e)))
   \<and> (\<not> stringIncludes (name c) ''name.definition''
        \<and> (stringIncludes (name c) ''definition'' \<or> stringIncludes (name c) ''name'')
        \<and> definitionNode c = Some (s, e) \<and> m \<le> int e - int s + 1
        \<and> lineKey s e \<notin> processedLines st \<and> lineAt lines s = Some t
        \<and> isNotHtmlElement language (trim t)
        \<and> parent (node c) = Some p \<and> p_lastChildEndRow p = Some ce
        \<and> m \<le> int ce - int (p_startRow p) + 1
        \<and> lineKey (p_startRow p) ce \<noteq> lineKey s e
        \<and> lineKey (p_startRow p) ce \<notin> processedLines st \<longrightarrow>
        captureCallback m lines language st c =
          Inr (emit (emit st (s, e, t) (lineKey s e))
                 (p_startRow p, ce, lineInTemplate lines (p_startRow p))
                 (lineKey (p_startRow p) ce)))"
proof (intro conjI impI)
  assume n: "needsHtmlFiltering language"
  let ?kept = "filter (\<lambda>c. \<not> htmlFiltered lines c) captures"
  have loop: "processCapturesLoop m ?kept lines language
                = processCapturesLoop m captures lines language"
    by (rule processCapturesLoop_filter[OF n])
  show "processCaptures m captures lines language = processCaptures m ?kept lines language"
  proof (cases "?kept = []")
    case True
    then have "processCapturesLoop m captures lines language = Inr initialState"
      using loop by (simp add: processCapturesLoop_def sortCaptures_def)
    then show ?thesis using True
      by (simp add: processCaptures_def initialState_def)
  next
    case False
    then have "captures \<noteq> []" by auto
    with False loop show ?thesis by (simp add: processCaptures_def)
  qed
next
  assume "\<not> needsHtmlFiltering language"
  then show "isNotHtmlElement language line" by (simp add: isNotHtmlElement_def)
next
  assume "stringIncludes (name c) ''name.definition''"
  then show "captureCallback m lines language st c = captureCallback m lines language' st c"
    by (simp add: name_definition_callback)
next
  assume "stringIncludes (name c) ''name.definition'' \<and> definitionNode c = Some (s, e)
        \<and> m \<le> int e - int s + 1 \<and> lineKey s e \<notin> processedLines st
        \<and> lineAt lines s = Some t \<and> nodeText (node c) \<noteq> []"
  then show "captureCallback m lines language st c = Inr (emit st (s, e, t) (lineKey s e))"
    by (simp add: name_definition_callback)
next
  assume "\<not> stringIncludes (name c) ''name.definition''
        \<and> (stringIncludes (name c) ''definition'' \<or> stringIncludes (name c) ''name'')
        \<and> definitionNode c = Some (s, e) \<and> m \<le> int e - int s + 1
        \<and> lineKey s e \<notin> processedLines st \<and> lineAt lines s = Some t
        \<and> isNotHtmlElement language (trim t)
        \<and> parent (node c) = Some p \<and> p_lastChildEndRow p = Some ce
        \<and> m \<le> int ce - int (p_startRow p) + 1
        \<and> lineKey (p_startRow p) ce \<noteq> lineKey s e
        \<and> lineKey (p_startRow p) ce \<notin> processedLines st"
  then show "captureCallback m lines language st c =
          Inr (emit (emit st (s, e, t) (lineKey s e))
                 (p_startRow p, ce, lineInTemplate lines (p_startRow p))
                 (lineKey (p_startRow p) ce))"
    by (intro context_callback) simp_all
qed

theorem html_elements_dropped_unless_name_definition_witness:
  "needsHtmlFiltering ''tsx''
   \<and> htmlFiltered exampleTsxLines exampleDivCapture
   \<and> processCaptures 4 [exampleDivCapture, exampleButtonCapture] exampleTsxLines ''tsx''
       = processCaptures 4 [exampleButtonCapture] exampleTsxLines ''tsx''
   \<and> isNotHtmlElement ''ts'' ''<div>''
   \<and> HTML_ELEMENTS_test (trim (exampleTsxLines ! 0))
   \<and> captureCallback 4 exampleTsxLines ''tsx'' initialState exampleDivNameCapture
       = captureCallback 4 exampleTsxLines ''ts'' initialState exampleDivNameCapture
   \<and> captureCallback 4 exampleTsxLines ''tsx'' initialState exampleDivNameCapture
       = Inr \<lparr> formattedOutput = ''1--4 |   <div className=x>'' @ [newline],
               processedLines = {''0-3''},
               emitted = [(0, 3, ''  <div className=x>'')] \<rparr>
   \<and> captureCallback 4 exampleTsxLines ''tsx'' initialState exampleNestedCapture
       = Inr \<lparr> formattedOutput = ''5--8 | const Button = () => ('' @ [newline]
                                  @ ''1--8 |   <div className=x>'' @ [newline],
               processedLines = {''4-7'', ''0-7''},
               emitted = [(4, 7, ''const Button = () => (''), (0, 7, ''  <div className=x>'')] \<rparr>"
proof -
  have tsx: "needsHtmlFiltering ''tsx''" and ts: "\<not> needsHtmlFiltering ''ts''"
    by code_simp+
  have div: "htmlFiltered exampleTsxLines exampleDivCapture"
    and button: "\<not> htmlFiltered exampleTsxLines exampleButtonCapture"
    and html: "HTML_ELEMENTS_test (trim (exampleTsxLines ! 0))"
    by code_simp+
  have named: "stringIncludes (name exampleDivNameCapture) ''name.definition''
      \<and> definitionNode exampleDivNameCapture = Some (0, 3)
      \<and> (4 :: int) \<le> int 3 - int 0 + 1 \<and> lineKey 0 3 \<notin> processedLines initialState
      \<and> lineAt exampleTsxLines 0 = Some ''  <div className=x>''
      \<and> nodeText (node exampleDivNameCapture) \<noteq> []"
    by code_simp
  have named_state: "emit initialState (0, 3, ''  <div className=x>'') (lineKey 0 3)
      = \<lparr> formattedOutput = ''1--4 |   <div className=x>'' @ [newline],
          processedLines = {''0-3''},
          emitted = [(0, 3, ''  <div className=x>'')] \<rparr>"
    by code_simp
  have nested: "\<not> stringIncludes (name exampleNestedCapture) ''name.definition''
      \<and> (stringIncludes (name exampleNestedCapture) ''definition''
           \<or> stringIncludes (name exampleNestedCapture) ''name'')
      \<and> definitionNode exampleNestedCapture = Some (4, 7) \<and> (4 :: int) \<le> int 7 - int 4 + 1
      \<and> lineKey 4 7 \<notin> processedLines initialState
      \<and> lineAt exampleTsxLines 4 = Some ''const Button = () => (''
      \<and> isNotHtmlElement ''tsx'' (trim ''const Button = () => ('')
      \<and> parent (node exampleNestedCapture)
          = Some \<lparr>p_startRow = 0, p_endRow = 7, p_lastChildEndRow = Some 7\<rparr>
      \<and> p_lastChildEndRow \<lparr>p_startRow = 0, p_endRow = 7, p_lastChildEndRow = Some 7\<rparr> = Some 7
      \<and> (4 :: int) \<le> int 7
            - int (p_startRow \<lparr>p_startRow = 0, p_endRow = 7, p_lastChildEndRow = Some 7\<rparr>) + 1
      \<and> lineKey (p_startRow \<lparr>p_startRow = 0, p_endRow = 7, p_lastChildEndRow = Some 7\<rparr>) 7
          \<noteq> lineKey 4 7
      \<and> lineKey (p_startRow \<lparr>p_startRow = 0, p_endRow = 7, p_lastChildEndRow = Some 7\<rparr>) 7
          \<notin> processedLines initialState"
    by code_simp
  have nested_state: "emit (emit initialState (4, 7, ''const Button = () => ('') (lineKey 4 7))
        (p_startRow \<lparr>p_startRow = 0, p_endRow = 7, p_lastChildEndRow = Some 7\<rparr>, 7,
         lineInTemplate exampleTsxLines
           (p_startRow \<lparr>p_startRow = 0, p_endRow = 7, p_lastChildEndRow = Some 7\<rparr>))
        (lineKey (p_startRow \<lparr>p_startRow = 0, p_endRow = 7, p_lastChildEndRow = Some 7\<rparr>) 7)
      = \<lparr> formattedOutput = ''5--8 | const Button = () => ('' @ [newline]
                             @ ''1--8 |   <div className=x>'' @ [newline],
          processedLines = {''4-7'', ''0-7''},
          emitted = [(4, 7, ''const Button = () => (''), (0, 7, ''  <div className=x>'')] \<rparr>"
    by code_simp
  note filtered = html_elements_dropped_unless_name_definition
        [where language = "''tsx''" and m = 4 and lines = exampleTsxLines
           and captures = "[exampleDivCapture, exampleButtonCapture]"
           and c = exampleDivNameCapture and st = initialState and language' = "''ts''"
           and s = 0 and e = 3 and t = "''  <div className=x>''"]
  note other = html_elements_dropped_unless_name_definition
        [where language = "''ts''" and line = "''<div>''"]
  note nested_inst = html_elements_dropped_unless_name_definition
        [where language = "''tsx''" and m = 4 and lines = exampleTsxLines
           and c = exampleNestedCapture and st = initialState
           and s = 4 and e = 7 and t = "''const Button = () => (''"
           and p = "\<lparr>p_startRow = 0, p_endRow = 7, p_lastChildEndRow = Some 7\<rparr>" and ce = 7]
  have a: "processCaptures 4 [exampleDivCapture, exampleButtonCapture] exampleTsxLines ''tsx''
       = processCaptures 4 [exampleButtonCapture] exampleTsxLines ''tsx''"
    using filtered tsx div button by simp
  have b: "isNotHtmlElement ''ts'' ''<div>''"
    using other ts by simp
  have c1: "captureCallback 4 exampleTsxLines ''tsx'' initialState exampleDivNameCapture
       = captureCallback 4 exampleTsxLines ''ts'' initialState exampleDivNameCapture"
    using filtered named by blast
  have c2: "captureCallback 4 exampleTsxLines ''tsx'' initialState exampleDivNameCapture
       = Inr (emit initialState (0, 3, ''  <div className=x>'') (lineKey 0 3))"
    using filtered named by blast
  have d: "captureCallback 4 exampleTsxLines ''tsx'' initialState exampleNestedCapture
       = Inr (emit (emit initialState (4, 7, ''const Button = () => ('') (lineKey 4 7))
        (p_startRow \<lparr>p_startRow = 0, p_endRow = 7, p_lastChildEndRow = Some 7\<rparr>, 7,
         lineInTemplate exampleTsxLines
           (p_startRow \<lparr>p_startRow = 0, p_endRow = 7, p_lastChildEndRow = Some 7\<rparr>))
        (lineKey (p_startRow \<lparr>p_startRow = 0, p_endRow = 7, p_lastChildEndRow = Some 7\<rparr>) 7))"
    using nested_inst nested by blast
  show ?thesis
    using tsx div a b html c1 c2[unfolded named_state] d[unfolded nested_state] by blast
qed

section \<open>The order of the output\<close>





section \<open>The definitions of one file\<close>

lemma lineAt_Some: "lineAt lines i = Some t \<longleftrightarrow> i < length lines \<and> t = lines ! i"
  by (auto simp: lineAt_def)

lemma lineInTemplate_in_range: "i < length lines \<Longrightarrow> lineInTemplate lines i = lines ! i"
  by (simp add: lineInTemplate_def lineAt_def)

lemma outputMatchesLog_step:
  assumes "outputMatchesLog lines s" and "captureCallback m lines language s c = Inr s'"
    and "case parent (node c) of None \<Rightarrow> True | Some p \<Rightarrow> p_startRow p < length lines"
  shows "outputMatchesLog lines s'"
  using captureCallback_cases[OF assms(2)] assms(1,3)
  by (elim disjE exE conjE)
     (auto simp: outputMatchesLog_def lineAt_Some lineInTemplate_in_range)

lemma processCapturesLoop_outputMatchesLog:
  assumes "processCapturesLoop m captures lines language = Inr st"
    and "parentRowsInFile lines captures"
  shows "outputMatchesLog lines st"
proof -
  have "outputMatchesLog lines initialState"
    by (simp add: outputMatchesLog_def initialState_def)
  moreover have "outputMatchesLog lines s'"
    if "outputMatchesLog lines s" and "c \<in> set (sortCaptures captures)"
      and "captureCallback m lines language s c = Inr s'" for s c s'
    using that assms(2) outputMatchesLog_step[of lines s m language c s']
    by (auto simp: parentRowsInFile_def)
  ultimately show ?thesis
    using assms(1) unfolding processCapturesLoop_def
    by (rule_tac forEachCapture_invariant[where P="outputMatchesLog lines"]) blast+
qed

lemma formatLine_nonempty: "formatLine r \<noteq> []"
  by (simp add: formatLine_def split: prod.splits)

lemma processCaptures_of_loop:
  assumes "processCapturesLoop m captures lines language = Inr st"
    and "emitted st \<noteq> []" and "outputMatchesLog lines st"
  shows "processCaptures m captures lines language
           = Inr (Some (concat (map formatLine (emitted st))))"
proof -
  have "captures \<noteq> []"
    using assms(1,2) by (auto simp: processCapturesLoop_def sortCaptures_def initialState_def)
  moreover have "formattedOutput st \<noteq> []"
    using assms(2,3) by (cases "emitted st") (auto simp: outputMatchesLog_def formatLine_nonempty)
  ultimately show ?thesis
    using assms(1,3) by (simp add: processCaptures_def outputMatchesLog_def)
qed

lemma processCapturesLoop_recordOfCapture:
  assumes "processCapturesLoop m captures lines language = Inr st"
  shows "\<forall>r \<in> set (emitted st). \<exists>c \<in> set captures. recordOfCapture c r"
proof -
  let ?P = "\<lambda>s. \<forall>r \<in> set (emitted s). \<exists>c \<in> set captures. recordOfCapture c r"
  have step: "?P s'"
    if "?P s" and "c \<in> set (sortCaptures captures)"
      and "captureCallback m lines language s c = Inr s'" for s c s'
  proof -
    have c: "c \<in> set captures" using that(2) by simp
    have "recordOfCapture c r" if "r \<in> set (emitted s')" "r \<notin> set (emitted s)" for r
      using captureCallback_cases[OF \<open>captureCallback m lines language s c = Inr s'\<close>] that
      by (elim disjE exE conjE) (auto simp: recordOfCapture_def rangeOf_def)
    with c that(1) show ?thesis by blast
  qed
  have "?P initialState" by (simp add: initialState_def)
  with assms step show ?thesis
    unfolding processCapturesLoop_def
    by (rule_tac forEachCapture_invariant[where P="?P"]) blast+
qed

text \<open>
  C7. For an existing, supported file that is not ignored, can be read, has its parser
  (or is markdown) and yields at least one definition, \<open>parseSourceCodeDefinitionsForFile\<close>
  returns the line \<open># basename\<close> followed by one line per definition, of the form
  \<open>start--end | header\<close>, where start and end are the 0-based rows plus one and the header
  is the line of the file at the start row; each definition is the definition node of a
  capture or the context range of one. The rows of the captures' parents are rows of the
  file, as they are for the nodes of a tree parsed from that file.
\<close>

theorem definitions_for_file_format:
  assumes "fileSystem_exists dependencies filePath"
    and "ext = toLowerCase (pathUtils_extname dependencies filePath)"
    and "ext \<in> set extensions"
    and "\<not> workspace_shouldIgnore dependencies filePath"
    and "fileSystem_readFile dependencies filePath = Inr fileContent"
    and "if isMarkdownExt ext
         then parseMarkdown modules fileContent = Inr captures \<and> language = ''markdown''
         else \<exists>languageParsers parserAndQuery.
                loadRequiredLanguageParsers modules [filePath] = Inr languageParsers \<and>
                languageParsers (drop 1 ext) = Some parserAndQuery \<and>
                parserAndQuery fileContent = Inr captures \<and> language = drop 1 ext"
    and "processCapturesLoop m captures (split fileContent) language = Inr st"
    and "emitted st \<noteq> []"
    and "parentRowsInFile (split fileContent) captures"
  shows "parseSourceCodeDefinitionsForFile m modules filePath dependencies =
           Inr (Some (''# '' @ pathUtils_basename dependencies filePath @ [newline] @
             concat (map (\<lambda>(startLine, endLine, header).
                 toString (startLine + 1) @ ''--'' @ toString (endLine + 1) @ '' | ''
                   @ header @ [newline])
               (emitted st))))
         \<and> (\<forall>(startLine, endLine, header) \<in> set (emitted st).
               startLine < length (split fileContent) \<and> header = split fileContent ! startLine)
         \<and> (\<forall>r \<in> set (emitted st). \<exists>c \<in> set captures. recordOfCapture c r)"
proof -
  let ?lines = "split fileContent"
  have log: "outputMatchesLog ?lines st"
    using assms(7,9) by (rule processCapturesLoop_outputMatchesLog)
  have pc: "processCaptures m captures ?lines language
              = Inr (Some (concat (map formatLine (emitted st))))"
    using assms(7,8) log by (rule processCaptures_of_loop)
  have ne: "concat (map formatLine (emitted st)) \<noteq> []"
    using assms(8) by (cases "emitted st") (auto simp: formatLine_nonempty)
  have fmt: "formatLine = (\<lambda>(startLine, endLine, header).
                 toString (startLine + 1) @ ''--'' @ toString (endLine + 1) @ '' | ''
                   @ header @ [newline])"
    by (rule ext) (simp add: formatLine_def)
  have res: "parseSourceCodeDefinitionsForFile m modules filePath dependencies =
           Inr (Some (''# '' @ pathUtils_basename dependencies filePath @ [newline] @
             concat (map formatLine (emitted st))))"
  proof (cases "isMarkdownExt ext")
    case True
    with assms(1-6) pc ne show ?thesis
      by (simp add: parseSourceCodeDefinitionsForFile_def withHeader_def Let_def)
  next
    case False
    with assms(6) obtain languageParsers parserAndQuery where
      lp: "loadRequiredLanguageParsers modules [filePath] = Inr languageParsers"
        "languageParsers (drop 1 ext) = Some parserAndQuery"
        "parserAndQuery fileContent = Inr captures" "language = drop 1 ext"
      by auto
    have "parseFile m filePath languageParsers dependencies =
            Inr (Some (concat (map formatLine (emitted st))))"
      using assms(2,4,5) lp pc by (simp add: parseFile_def Let_def)
    with False assms(1-3) lp(1) ne show ?thesis
      by (simp add: parseSourceCodeDefinitionsForFile_def withHeader_def Let_def)
  qed
  have src: "\<forall>r \<in> set (emitted st). \<exists>c \<in> set captures. recordOfCapture c r"
    using assms(7) by (rule processCapturesLoop_recordOfCapture)
  have hdr: "\<forall>(startLine, endLine, header) \<in> set (emitted st).
               startLine < length ?lines \<and> header = ?lines ! startLine"
    using log by (auto simp: outputMatchesLog_def)
  show ?thesis
    using res hdr src unfolding fmt[symmetric] by blast
qed

theorem definitions_for_file_format_witness:
  "parseSourceCodeDefinitionsForFile 4 exampleModules ''/ws/a.ts'' exampleDependencies
     = Inr (Some (''# a.ts'' @ [newline] @ ''1--4 | function f() {'' @ [newline]))"
proof -
  let ?st = "\<lparr> formattedOutput = ''1--4 | function f() {'' @ [newline],
               processedLines = {''0-3''},
               emitted = [(0, 3, ''function f() {'')] \<rparr>"
  have h1: "fileSystem_exists exampleDependencies ''/ws/a.ts''" by code_simp
  have h2: "''.ts'' = toLowerCase (pathUtils_extname exampleDependencies ''/ws/a.ts'')"
    by code_simp
  have h3: "''.ts'' \<in> set extensions" by code_simp
  have h4: "\<not> workspace_shouldIgnore exampleDependencies ''/ws/a.ts''" by code_simp
  have h5: "fileSystem_readFile exampleDependencies ''/ws/a.ts'' = Inr exampleContent"
    by code_simp
  have h6: "if isMarkdownExt ''.ts''
         then parseMarkdown exampleModules exampleContent = Inr exampleCaptures \<and> ''ts'' = ''markdown''
         else \<exists>languageParsers parserAndQuery.
                loadRequiredLanguageParsers exampleModules [''/ws/a.ts''] = Inr languageParsers \<and>
                languageParsers (drop 1 ''.ts'') = Some parserAndQuery \<and>
                parserAndQuery exampleContent = Inr exampleCaptures \<and> ''ts'' = drop 1 ''.ts''"
    by (simp add: isMarkdownExt_def exampleModules_def)
  have h7: "processCapturesLoop 4 exampleCaptures (split exampleContent) ''ts'' = Inr ?st"
    by code_simp
  have h8: "emitted ?st \<noteq> []" by simp
  have h9: "parentRowsInFile (split exampleContent) exampleCaptures" by code_simp
  have name: "pathUtils_basename exampleDependencies ''/ws/a.ts'' = ''a.ts''" by code_simp
  have line: "toString (0 + 1) @ ''--'' @ toString (3 + 1) @ '' | '' @ ''function f() {''
                @ [newline] = ''1--4 | function f() {'' @ [newline]"
    by code_simp
  from definitions_for_file_format[OF h1 h2 h3 h4 h5 h6 h7 h8 h9]
  show ?thesis using name line by simp
qed

text \<open>
  C8. For an existing file whose lowercased extension is not in the list of supported
  extensions, \<open>parseSourceCodeDefinitionsForFile\<close> returns \<open>undefined\<close> and raises nothing.
\<close>

theorem unsupported_extension_undefined:
  assumes "fileSystem_exists dependencies filePath"
    and "toLowerCase (pathUtils_extname dependencies filePath) \<notin> set extensions"
  shows "parseSourceCodeDefinitionsForFile m modules filePath dependencies = Inr None"
  using assms by (simp add: parseSourceCodeDefinitionsForFile_def Let_def)

theorem unsupported_extension_undefined_witness:
  "parseSourceCodeDefinitionsForFile 4 exampleModules ''/ws/notes.txt'' exampleDependencies
     = Inr None"
proof -
  have h1: "fileSystem_exists exampleDependencies ''/ws/notes.txt''" by code_simp
  have h2: "toLowerCase (pathUtils_extname exampleDependencies ''/ws/notes.txt'')
              \<notin> set extensions"
    by code_simp
  show ?thesis by (rule unsupported_extension_undefined[OF h1 h2])
qed

text \<open>
  C10. For a path that does not exist, \<open>parseSourceCodeDefinitionsForFile\<close> raises nothing
  and does not return \<open>undefined\<close>: it returns the fixed sentence, which does not begin
  with the \<open>#\<close> of the definitions format.
\<close>

theorem missing_file_message:
  assumes "\<not> fileSystem_exists dependencies filePath"
  shows "parseSourceCodeDefinitionsForFile m modules filePath dependencies =
           Inr (Some ''This file does not exist or you do not have permission to access it.'')
         \<and> \<not> prefix ''# ''
               ''This file does not exist or you do not have permission to access it.''"
  using assms by (simp add: parseSourceCodeDefinitionsForFile_def)

theorem missing_file_message_witness:
  "parseSourceCodeDefinitionsForFile 4 exampleModules ''/ws/missing.ts'' exampleDependencies
     = Inr (Some ''This file does not exist or you do not have permission to access it.'')"
proof -
  have h: "\<not> fileSystem_exists exampleDependencies ''/ws/missing.ts''" by code_simp
  from missing_file_message[OF h] show ?thesis by simp
qed

section \<open>The definitions of a directory\<close>

lemma separateFiles_findFiles [simp]:
  "separateFiles allFiles (d\<lparr>workspace_findFiles := fs\<rparr>) = separateFiles allFiles d"
  by (simp add: separateFiles_def)

lemma separateFiles_idem:
  "fst (separateFiles (fst (separateFiles allFiles d)) d) = fst (separateFiles allFiles d)"
proof -
  let ?P = "\<lambda>file. pathUtils_extname d file \<in> set extensions"
  have "filter ?P (take 50 (filter ?P allFiles)) = take 50 (filter ?P allFiles)"
    by (rule filter_True) (auto dest: in_set_takeD)
  then show ?thesis by (simp add: separateFiles_def Let_def)
qed

lemma parseFile_findFiles [simp]:
  "parseFile m file lp (d\<lparr>workspace_findFiles := fs\<rparr>) = parseFile m file lp d"
  by (simp add: parseFile_def Let_def cong: sum.case_cong option.case_cong)

lemma markdownFilesLoop_findFiles [simp]:
  "markdownFilesLoop m modules dirPath (d\<lparr>workspace_findFiles := fs\<rparr>) files result
     = markdownFilesLoop m modules dirPath d files result"
  by (induction files arbitrary: result)
     (simp_all add: Let_def cong: sum.case_cong option.case_cong if_cong)

lemma otherFilesLoop_findFiles [simp]:
  "otherFilesLoop m lp dirPath (d\<lparr>workspace_findFiles := fs\<rparr>) files result
     = otherFilesLoop m lp dirPath d files result"
  by (induction files arbitrary: result)
     (simp_all cong: sum.case_cong option.case_cong if_cong)

text \<open>
  C9. \<open>parseSourceCodeForDefinitionsTopLevel\<close> parses at most 50 files, the first 50 of
  the listing whose extension (as \<open>separateFiles\<close> compares it) is supported: its result
  for a listing is its result for those files alone, so that every later file
  contributes nothing.
\<close>

theorem top_level_parses_first_fifty:
  "length (fst (separateFiles allFiles dependencies)) \<le> 50
   \<and> fst (separateFiles allFiles dependencies) =
       take 50 (filter (\<lambda>file. pathUtils_extname dependencies file \<in> set extensions) allFiles)
   \<and> parseSourceCodeForDefinitionsTopLevel m modules dirPath
       (dependencies\<lparr>workspace_findFiles := allFiles\<rparr>) =
     parseSourceCodeForDefinitionsTopLevel m modules dirPath
       (dependencies\<lparr>workspace_findFiles := fst (separateFiles allFiles dependencies)\<rparr>)"
proof (intro conjI)
  show "length (fst (separateFiles allFiles dependencies)) \<le> 50"
    by (simp add: separateFiles_def Let_def)
  show "fst (separateFiles allFiles dependencies) =
       take 50 (filter (\<lambda>file. pathUtils_extname dependencies file \<in> set extensions) allFiles)"
    by (simp add: separateFiles_def Let_def)
  show "parseSourceCodeForDefinitionsTopLevel m modules dirPath
       (dependencies\<lparr>workspace_findFiles := allFiles\<rparr>) =
     parseSourceCodeForDefinitionsTopLevel m modules dirPath
       (dependencies\<lparr>workspace_findFiles := fst (separateFiles allFiles dependencies)\<rparr>)"
    unfolding parseSourceCodeForDefinitionsTopLevel_def Let_def
    by (simp add: separateFiles_idem cong: sum.case_cong)
qed

theorem top_level_parses_first_fifty_witness:
  "parseSourceCodeForDefinitionsTopLevel 4 exampleModules ''/ws''
       (exampleDependencies\<lparr>workspace_findFiles := replicate 50 ''/ws/a.ts'' @ [''/ws/b.ts'']\<rparr>) =
     parseSourceCodeForDefinitionsTopLevel 4 exampleModules ''/ws''
       (exampleDependencies\<lparr>workspace_findFiles := replicate 50 ''/ws/a.ts''\<rparr>)"
proof -
  have first: "fst (separateFiles (replicate 50 ''/ws/a.ts'' @ [''/ws/b.ts'']) exampleDependencies)
                 = replicate 50 ''/ws/a.ts''"
    by code_simp
  show ?thesis
    using top_level_parses_first_fifty
      [of "replicate 50 ''/ws/a.ts'' @ [''/ws/b.ts'']" exampleDependencies 4 exampleModules "''/ws''"]
    unfolding first by simp
qed

end
